theory Spec2Isabelle
  imports Main
begin

section \<open>Python values, exceptions and the byte encoding of the store\<close>

text \<open>
  The exceptions the two services can raise. \<open>NotFound\<close> is
  \<^verbatim>\<open>products.exceptions.NotFound\<close>, raised by the storage wrapper;
  \<open>ProductNotFound\<close> and \<open>OrderNotFound\<close> are the gateway's exceptions; the others
  are Python's built-in exceptions and the store client's \<open>ResponseError\<close>. A remote
  exception the gateway has no mapping for arrives as \<open>RemoteError\<close>.
\<close>

datatype error =
    NotFound string
  | ProductNotFound string
  | OrderNotFound string
  | KeyError string
  | ValueError
  | TypeError
  | UnicodeDecodeError
  | ResponseError
  | RemoteError

text \<open>
  The dynamically typed values the code handles: integers and text. A Python \<open>str\<close> is
  represented by its UTF-8 bytes, so that \<open>str.encode('utf-8')\<close> is the identity on the
  representation and \<open>bytes.decode('utf-8')\<close> succeeds exactly on well-formed UTF-8.
\<close>

datatype pyval = PInt int | PStr string

fun ebind :: "error + 'a \<Rightarrow> ('a \<Rightarrow> error + 'b) \<Rightarrow> error + 'b" where
  "ebind (Inl e) f = Inl e"
| "ebind (Inr x) f = f x"

subsection \<open>\<open>bytes.decode('utf-8')\<close>\<close>

definition byte :: "char \<Rightarrow> nat" where
  "byte c = of_char c"

definition cont :: "char \<Rightarrow> bool" where
  "cont c = (128 \<le> byte c \<and> byte c < 192)"

definition between :: "nat \<Rightarrow> char \<Rightarrow> nat \<Rightarrow> bool" where
  "between lo c hi = (lo \<le> byte c \<and> byte c \<le> hi)"

text \<open>
  Well-formed UTF-8 as the strict decoder accepts it: no overlong forms (lead bytes
  \<open>0xC0\<close>, \<open>0xC1\<close>, and the second-byte ranges after \<open>0xE0\<close> and \<open>0xF0\<close>), no
  surrogates (after \<open>0xED\<close>), nothing above U+10FFFF (after \<open>0xF4\<close>).
\<close>

fun utf8_valid :: "string \<Rightarrow> bool" where
  "utf8_valid [] = True"
| "utf8_valid (c # cs) =
     (if byte c < 128 then utf8_valid cs
      else if between 194 c 223 then
        (case cs of c1 # r \<Rightarrow> cont c1 \<and> utf8_valid r | _ \<Rightarrow> False)
      else if between 224 c 239 then
        (case cs of
           c1 # c2 # r \<Rightarrow>
             (if byte c = 224 then between 160 c1 191
              else if byte c = 237 then between 128 c1 159
              else cont c1) \<and> cont c2 \<and> utf8_valid r
         | _ \<Rightarrow> False)
      else if between 240 c 244 then
        (case cs of
           c1 # c2 # c3 # r \<Rightarrow>
             (if byte c = 240 then between 144 c1 191
              else if byte c = 244 then between 128 c1 143
              else cont c1) \<and> cont c2 \<and> cont c3 \<and> utf8_valid r
         | _ \<Rightarrow> False)
      else False)"

definition decode_utf8 :: "string \<Rightarrow> error + string" where
  "decode_utf8 b = (if utf8_valid b then Inr b else Inl UnicodeDecodeError)"

subsection \<open>Integers as decimal text: \<open>repr\<close> and \<open>int\<close>\<close>

definition digit_char :: "nat \<Rightarrow> char" where
  "digit_char d = char_of (48 + d)"

fun dec_nat :: "nat \<Rightarrow> string" where
  "dec_nat n =
     (if n < 10 then [digit_char n] else dec_nat (n div 10) @ [digit_char (n mod 10)])"

declare dec_nat.simps [simp del]

text \<open>\<open>repr(i)\<close> of a Python \<open>int\<close>, which the store client sends as the field's value.\<close>

definition py_repr_int :: "int \<Rightarrow> string" where
  "py_repr_int i = (if i < 0 then CHR ''-'' # dec_nat (nat (- i)) else dec_nat (nat i))"

definition is_digit :: "char \<Rightarrow> bool" where
  "is_digit c = (48 \<le> byte c \<and> byte c \<le> 57)"

definition digit_val :: "char \<Rightarrow> nat" where
  "digit_val c = byte c - 48"

definition is_space :: "char \<Rightarrow> bool" where
  "is_space c = (byte c = 32 \<or> (9 \<le> byte c \<and> byte c \<le> 13))"

definition strip :: "string \<Rightarrow> string" where
  "strip s = rev (dropWhile is_space (rev (dropWhile is_space s)))"

text \<open>
  The digits of a Python integer literal in base 10: digits, with single underscores
  allowed between two digits.
\<close>

fun parse_digits :: "nat \<Rightarrow> string \<Rightarrow> nat option" where
  "parse_digits acc [] = Some acc"
| "parse_digits acc (c # cs) =
     (if is_digit c then parse_digits (10 * acc + digit_val c) cs
      else if c = CHR ''_'' then
        (case cs of
           [] \<Rightarrow> None
         | d # ds \<Rightarrow>
             if is_digit d then parse_digits (10 * acc + digit_val d) ds else None)
      else None)"

definition parse_unsigned :: "string \<Rightarrow> nat option" where
  "parse_unsigned s =
     (case s of
        [] \<Rightarrow> None
      | c # cs \<Rightarrow> if is_digit c then parse_digits (digit_val c) cs else None)"

text \<open>
  \<open>int(b)\<close> of a \<open>bytes\<close> value: surrounding ASCII whitespace is stripped, one sign is
  allowed, anything else that is not a base-10 literal raises \<open>ValueError\<close>.
\<close>

definition py_int :: "string \<Rightarrow> error + int" where
  "py_int b =
     (case strip b of
        [] \<Rightarrow> Inl ValueError
      | c # cs \<Rightarrow>
          if c = CHR ''-'' then
            (case parse_unsigned cs of None \<Rightarrow> Inl ValueError | Some n \<Rightarrow> Inr (- int n))
          else if c = CHR ''+'' then
            (case parse_unsigned cs of None \<Rightarrow> Inl ValueError | Some n \<Rightarrow> Inr (int n))
          else
            (case parse_unsigned (c # cs) of
               None \<Rightarrow> Inl ValueError
             | Some n \<Rightarrow> Inr (int n)))"

text \<open>How the store client encodes a field value: text as UTF-8, an integer by \<open>repr\<close>.\<close>

fun encode_value :: "pyval \<Rightarrow> string" where
  "encode_value (PInt i) = py_repr_int i"
| "encode_value (PStr t) = t"

section \<open>The key-value store\<close>

text \<open>
  A hash is a list of field/value pairs with distinct fields; the store maps a key to
  its hash. A hash with no field does not exist as a key: \<open>HGETALL\<close> on an absent key
  answers the empty hash.
\<close>

type_synonym hash = "(string \<times> string) list"

type_synonym store = "string \<rightharpoonup> hash"

definition hgetall :: "store \<Rightarrow> string \<Rightarrow> hash" where
  "hgetall s key = (case s key of None \<Rightarrow> [] | Some h \<Rightarrow> h)"

fun hset :: "string \<Rightarrow> string \<Rightarrow> hash \<Rightarrow> hash" where
  "hset f v [] = [(f, v)]"
| "hset f v ((g, w) # h) = (if g = f then (f, v) # h else (g, w) # hset f v h)"

fun hset_all :: "hash \<Rightarrow> (string \<times> string) list \<Rightarrow> hash" where
  "hset_all h [] = h"
| "hset_all h ((f, v) # fvs) = hset_all (hset f v h) fvs"

text \<open>\<open>HMSET key field value ...\<close>: sets the given fields, keeps the hash's other fields.\<close>

definition hmset :: "store \<Rightarrow> string \<Rightarrow> (string \<times> string) list \<Rightarrow> store" where
  "hmset s key mapping = s(key \<mapsto> hset_all (hgetall s key) mapping)"

definition in_int64 :: "int \<Rightarrow> bool" where
  "in_int64 i = (- (2 ^ 63) \<le> i \<and> i < 2 ^ 63)"

text \<open>
  The store reads a field as an integer only in canonical form (no sign \<open>+\<close>, no
  leading zero, no whitespace) and within 64 bits.
\<close>

definition redis_int :: "string \<Rightarrow> int option" where
  "redis_int v =
     (case py_int v of
        Inl e \<Rightarrow> None
      | Inr i \<Rightarrow> if py_repr_int i = v \<and> in_int64 i then Some i else None)"

text \<open>
  \<open>HINCRBY key field increment\<close>: an absent key or field counts as 0, so the command
  creates what is missing; a value that is not an integer, or a result outside 64 bits,
  is an error reply and changes nothing.
\<close>

definition hincrby :: "store \<Rightarrow> string \<Rightarrow> string \<Rightarrow> int \<Rightarrow> (error + int) \<times> store" where
  "hincrby s key field amount =
     (let h = hgetall s key in
      case (case map_of h field of None \<Rightarrow> Some 0 | Some v \<Rightarrow> redis_int v) of
        None \<Rightarrow> (Inl ResponseError, s)
      | Some old \<Rightarrow>
          if in_int64 amount \<and> in_int64 (old + amount)
          then (Inr (old + amount), s(key \<mapsto> hset field (py_repr_int (old + amount)) h))
          else (Inl ResponseError, s))"

section \<open>Product storage (\<open>StorageWrapper\<close>)\<close>

record product =
  id_p :: string
  title :: string
  passenger_capacity :: int
  maximum_speed :: int
  in_stock :: int

text \<open>A product as the Python \<open>dict\<close> it is: its items, and \<open>product[key]\<close>.\<close>

definition product_items :: "product \<Rightarrow> (string \<times> pyval) list" where
  "product_items p =
     [(''id'', PStr (id_p p)),
      (''title'', PStr (title p)),
      (''passenger_capacity'', PInt (passenger_capacity p)),
      (''maximum_speed'', PInt (maximum_speed p)),
      (''in_stock'', PInt (in_stock p))]"

definition product_getitem :: "product \<Rightarrow> string \<Rightarrow> error + pyval" where
  "product_getitem p key =
     (case map_of (product_items p) key of None \<Rightarrow> Inl (KeyError key) | Some v \<Rightarrow> Inr v)"

definition format_key :: "string \<Rightarrow> string" where
  "format_key product_id = ''products:'' @ product_id"

definition hash_getitem :: "hash \<Rightarrow> string \<Rightarrow> error + string" where
  "hash_getitem document f =
     (case map_of document f of None \<Rightarrow> Inl (KeyError f) | Some v \<Rightarrow> Inr v)"

text \<open>\<open>_from_hash\<close>: the five fields are read and decoded in the order of the source.\<close>

definition from_hash :: "hash \<Rightarrow> error + product" where
  "from_hash document =
     ebind (ebind (hash_getitem document ''id'') decode_utf8) (\<lambda>i.
     ebind (ebind (hash_getitem document ''title'') decode_utf8) (\<lambda>t.
     ebind (ebind (hash_getitem document ''passenger_capacity'') py_int) (\<lambda>c.
     ebind (ebind (hash_getitem document ''maximum_speed'') py_int) (\<lambda>m.
     ebind (ebind (hash_getitem document ''in_stock'') py_int) (\<lambda>k.
       Inr \<lparr>id_p = i, title = t, passenger_capacity = c, maximum_speed = m,
            in_stock = k\<rparr>)))))"

definition get :: "store \<Rightarrow> string \<Rightarrow> error + product" where
  "get s product_id =
     (let product = hgetall s (format_key product_id) in
      if product = [] then Inl (NotFound (''Product ID '' @ product_id @ '' does not exist''))
      else from_hash product)"

definition create :: "store \<Rightarrow> product \<Rightarrow> store" where
  "create s product =
     hmset s (format_key (id_p product))
       (map (\<lambda>(f, v). (f, encode_value v)) (product_items product))"

text \<open>
  \<open>find_order_details_by_id\<close>. The pipeline queues one \<open>HGETALL\<close> per key and answers
  them in order on \<open>execute\<close>; the second loop keeps the non-empty answers, decoded.
\<close>

fun pipeline_queue :: "string list \<Rightarrow> string list \<Rightarrow> string list" where
  "pipeline_queue pipeline [] = pipeline"
| "pipeline_queue pipeline (key # keys) = pipeline_queue (pipeline @ [key]) keys"

definition pipeline_execute :: "store \<Rightarrow> string list \<Rightarrow> hash list" where
  "pipeline_execute s pipeline = map (hgetall s) pipeline"

fun collect_products :: "product list \<Rightarrow> hash list \<Rightarrow> error + product list" where
  "collect_products products [] = Inr products"
| "collect_products products (result # results) =
     (if result \<noteq> [] then
        (case from_hash result of
           Inl e \<Rightarrow> Inl e
         | Inr p \<Rightarrow> collect_products (products @ [p]) results)
      else collect_products products results)"

definition find_order_details_by_id :: "store \<Rightarrow> string list \<Rightarrow> error + product list" where
  "find_order_details_by_id s orders_id =
     (let keys = map format_key orders_id;
          results = pipeline_execute s (pipeline_queue [] keys)
      in case collect_products [] results of
           Inl e \<Rightarrow> Inl e
         | Inr products \<Rightarrow>
             if products = [] then Inl (NotFound ''No products found for the given IDs.'')
             else Inr products)"

definition delete :: "store \<Rightarrow> string \<Rightarrow> (error + nat) \<times> store" where
  "delete s product_id =
     (let key = format_key product_id;
          result = (if hgetall s key = [] then 0 else 1 :: nat)
      in if result = 0
         then (Inl (NotFound (''Product ID '' @ product_id @ '' does not exist'')),
               s(key := None))
         else (Inr result, s(key := None)))"

definition decrement_stock :: "store \<Rightarrow> string \<Rightarrow> int \<Rightarrow> (error + int) \<times> store" where
  "decrement_stock s product_id amount =
     hincrby s (format_key product_id) ''in_stock'' (- amount)"

text \<open>An id has a record when the store answers a non-empty hash for its key.\<close>

definition has_record :: "store \<Rightarrow> string \<Rightarrow> bool" where
  "has_record s product_id = (hgetall s (format_key product_id) \<noteq> [])"

text \<open>The record of an id, if the store has one, decodes as a product.\<close>

definition record_ok :: "store \<Rightarrow> string \<Rightarrow> bool" where
  "record_ok s product_id =
     (case from_hash (hgetall s (format_key product_id)) of
        Inl e \<Rightarrow> hgetall s (format_key product_id) = []
      | Inr p \<Rightarrow> True)"

text \<open>The product an id's record decodes to.\<close>

definition decodes_to :: "store \<Rightarrow> string \<Rightarrow> product \<Rightarrow> bool" where
  "decodes_to s product_id p = (from_hash (hgetall s (format_key product_id)) = Inr p)"

section \<open>The services behind the gateway\<close>

record order_detail =
  product_id :: string
  price :: string
  quantity :: int

text \<open>
  An order as the orders service answers it, and as the gateway answers it once each
  detail carries \<open>item['product']\<close> and \<open>item['image']\<close>.
\<close>

record enriched_detail = order_detail +
  item_product :: product
  item_image :: string

record 'd order =
  order_id :: int
  order_details :: "'d list"

text \<open>The remote calls a request issues, in the order they are issued.\<close>

datatype rpc_call =
    GetOrder int
  | ListOrders pyval pyval
  | CreateOrder "order_detail list"
  | GetProductsById "string list"

text \<open>
  Modelled from the spec: the products service's RPC \<open>get_products_by_id\<close>, whose file
  (the service class of the products package) is not among the sources. The spec has the
  service a thin pass-through facade over the product store, whose store-level
  \<open>NotFound\<close> crosses to the gateway as \<open>ProductNotFound\<close>; any other failure of the
  remote call is not masked as \<open>NotFound\<close> and arrives as \<open>RemoteError\<close>.
\<close>

definition get_products_by_id :: "store \<Rightarrow> string list \<Rightarrow> error + product list" where
  "get_products_by_id s ids =
     (case find_order_details_by_id s ids of
        Inl (NotFound m) \<Rightarrow> Inl (ProductNotFound m)
      | Inl e \<Rightarrow> Inl RemoteError
      | Inr products \<Rightarrow> Inr products)"

text \<open>
  The orders service is a black box: each gateway operation takes the remote procedure
  it calls as a function from the call's arguments to its answer.
\<close>

type_synonym get_order_rpc = "int \<Rightarrow> error + order_detail order"

type_synonym list_orders_rpc = "pyval \<Rightarrow> pyval \<Rightarrow> error + order_detail order list"

type_synonym create_order_rpc = "order_detail list \<Rightarrow> error + order_detail order"

text \<open>
  Modelled from the spec: an orders service that holds the one given order;
  \<open>get_order(id)\<close> answers it for its id and fails with \<open>OrderNotFound\<close> otherwise.
\<close>

definition orders_holding :: "order_detail order \<Rightarrow> get_order_rpc" where
  "orders_holding order oid =
     (if oid = order_id order then Inr order else Inl (OrderNotFound ''Order not found''))"

text \<open>
  Modelled from the spec: an orders service whose \<open>create_order\<close> accepts every order
  and answers it with the id 1.
\<close>

definition accepting_orders :: create_order_rpc where
  "accepting_orders details = Inr \<lparr>order_id = 1, order_details = details\<rparr>"

text \<open>The store holds the product \<open>p\<close> under the id \<open>i\<close>: the product exists.\<close>

definition stored :: "store \<Rightarrow> string \<Rightarrow> product \<Rightarrow> bool" where
  "stored s i p = (get s i = Inr p \<and> id_p p = i)"

section \<open>The gateway (\<open>GatewayService\<close>)\<close>

subsection \<open>\<open>_get_order\<close>\<close>

text \<open>
  The dictionary comprehension \<open>{product['id']: product for product in products_data}\<close>:
  a later product replaces an earlier one under the same key.
\<close>

fun build_product_map ::
  "(pyval \<rightharpoonup> product) \<Rightarrow> product list \<Rightarrow> error + (pyval \<rightharpoonup> product)" where
  "build_product_map product_map [] = Inr product_map"
| "build_product_map product_map (product # products_data) =
     ebind (product_getitem product ''id'')
       (\<lambda>k. build_product_map (product_map(k \<mapsto> product)) products_data)"

text \<open>
  The enhancing loop: \<open>product_map[product_id]\<close> raises \<open>KeyError\<close> at the first
  detail whose product is not in the map.
\<close>

fun enhance ::
  "string \<Rightarrow> (pyval \<rightharpoonup> product) \<Rightarrow> order_detail list \<Rightarrow> error + enriched_detail list" where
  "enhance image_root product_map [] = Inr []"
| "enhance image_root product_map (item # items) =
     (case product_map (PStr (product_id item)) of
        None \<Rightarrow> Inl (KeyError (product_id item))
      | Some p \<Rightarrow>
          ebind (enhance image_root product_map items)
            (\<lambda>rest. Inr (\<lparr>product_id = product_id item, price = price item,
                            quantity = quantity item, item_product = p,
                            item_image = image_root @ ''/'' @ product_id item @ ''.jpg''\<rparr>
                          # rest)))"

definition priv_get_order ::
  "store \<Rightarrow> get_order_rpc \<Rightarrow> string \<Rightarrow> int \<Rightarrow> (error + enriched_detail order) \<times> rpc_call list" where
  "priv_get_order s get_order_rpc image_root oid =
     (case get_order_rpc oid of
        Inl e \<Rightarrow> (Inl e, [GetOrder oid])
      | Inr order \<Rightarrow>
          let products_id = map product_id (order_details order) in
          (case get_products_by_id s products_id of
             Inl e \<Rightarrow> (Inl e, [GetOrder oid, GetProductsById products_id])
           | Inr products_data \<Rightarrow>
               (ebind (build_product_map Map.empty products_data) (\<lambda>product_map.
                ebind (enhance image_root product_map (order_details order)) (\<lambda>items.
                  Inr \<lparr>order_id = order_id order, order_details = items\<rparr>)),
                [GetOrder oid, GetProductsById products_id])))"

subsection \<open>\<open>get_orders\<close>\<close>

text \<open>
  \<open>request.args.get(key, default=d)\<close>: the query string's first value for the key, as
  the text it is (no \<open>type=\<close> conversion is asked for), or the default.
\<close>

definition args_get :: "(string \<times> string) list \<Rightarrow> string \<Rightarrow> pyval \<Rightarrow> pyval" where
  "args_get args key dflt =
     (case map_of args key of None \<Rightarrow> dflt | Some v \<Rightarrow> PStr v)"

text \<open>\<open>a > b\<close>: integers and texts compare among themselves, a mix raises \<open>TypeError\<close>.\<close>

fun py_gt :: "pyval \<Rightarrow> pyval \<Rightarrow> error + bool" where
  "py_gt (PInt a) (PInt b) = Inr (b < a)"
| "py_gt (PStr a) (PStr b) = Inr (lexordp (\<lambda>x y. byte x < byte y) b a)"
| "py_gt (PInt a) (PStr b) = Inl TypeError"
| "py_gt (PStr a) (PInt b) = Inl TypeError"

text \<open>\<open>max(a, b)\<close> keeps \<open>a\<close> unless \<open>b > a\<close>; \<open>min(a, b)\<close> keeps \<open>a\<close> unless \<open>b < a\<close>.\<close>

definition py_max :: "pyval \<Rightarrow> pyval \<Rightarrow> error + pyval" where
  "py_max a b = ebind (py_gt b a) (\<lambda>g. Inr (if g then b else a))"

definition py_min :: "pyval \<Rightarrow> pyval \<Rightarrow> error + pyval" where
  "py_min a b = ebind (py_gt a b) (\<lambda>l. Inr (if l then b else a))"

definition get_orders ::
  "list_orders_rpc \<Rightarrow> (string \<times> string) list \<Rightarrow> (error + order_detail order list) \<times> rpc_call list" where
  "get_orders list_orders_rpc args =
     (case py_max (PInt 1) (args_get args ''page'' (PInt 1)) of
        Inl e \<Rightarrow> (Inl e, [])
      | Inr page \<Rightarrow>
          (case py_min (PInt 10) (args_get args ''limit'' (PInt 10)) of
             Inl e \<Rightarrow> (Inl e, [])
           | Inr limit \<Rightarrow> (list_orders_rpc page limit, [ListOrders page limit])))"

subsection \<open>\<open>_create_order\<close>\<close>

text \<open>The list comprehension \<open>[item[key] for item in order_details]\<close>.\<close>

fun getitems :: "product list \<Rightarrow> string \<Rightarrow> error + pyval list" where
  "getitems [] key = Inr []"
| "getitems (item # items) key =
     ebind (product_getitem item key) (\<lambda>v. ebind (getitems items key) (\<lambda>vs. Inr (v # vs)))"

text \<open>The loop that raises \<open>ProductNotFound\<close> for the first id not among the found ones.\<close>

fun raise_first_missing :: "pyval list \<Rightarrow> string list \<Rightarrow> error + unit" where
  "raise_first_missing missing_products_id [] = Inr ()"
| "raise_first_missing missing_products_id (unique_product_id # unique_product_ids) =
     (if PStr unique_product_id \<in> set missing_products_id
      then raise_first_missing missing_products_id unique_product_ids
      else Inl (ProductNotFound (''Product Id '' @ unique_product_id)))"

text \<open>
  \<open>order_data\<close> is the validated payload's \<open>order_details\<close>; dumping it through the
  schema re-serialises the validated fields and is the identity on the typed details.
  The products found are the source's local \<open>order_details\<close>, here \<open>order_details'\<close>
  (the name is the order's field).
\<close>

definition priv_create_order ::
  "store \<Rightarrow> create_order_rpc \<Rightarrow> order_detail list \<Rightarrow> (error + int) \<times> rpc_call list" where
  "priv_create_order s create_order_rpc order_data =
     (let unique_product_ids = map product_id order_data in
      case get_products_by_id s unique_product_ids of
        Inl e \<Rightarrow> (Inl e, [GetProductsById unique_product_ids])
      | Inr order_details' \<Rightarrow>
          (case (if length order_details' \<noteq> length unique_product_ids
                 then ebind (getitems order_details' ''product_id'')
                        (\<lambda>missing_products_id.
                           raise_first_missing missing_products_id unique_product_ids)
                 else Inr ()) of
             Inl e \<Rightarrow> (Inl e, [GetProductsById unique_product_ids])
           | Inr u \<Rightarrow>
               let serialized_data = order_data in
               (case create_order_rpc serialized_data of
                  Inl e \<Rightarrow>
                    (Inl e, [GetProductsById unique_product_ids, CreateOrder serialized_data])
                | Inr result \<Rightarrow>
                    (Inr (order_id result),
                     [GetProductsById unique_product_ids, CreateOrder serialized_data]))))"

section \<open>Example data\<close>

text \<open>
  The products of the gateway's docstrings and of the storage tests, a store holding the
  first two, a store holding the third, and an order line for a product id.
\<close>

definition the_odyssey :: product where
  "the_odyssey =
     \<lparr>id_p = ''the_odyssey'', title = ''The Odyssey'', passenger_capacity = 101,
      maximum_speed = 5, in_stock = 10\<rparr>"

definition the_enigma :: product where
  "the_enigma =
     \<lparr>id_p = ''the_enigma'', title = ''The Enigma'', passenger_capacity = 3,
      maximum_speed = 8, in_stock = 2\<rparr>"

definition hindenburg :: product where
  "hindenburg =
     \<lparr>id_p = ''LZ129'', title = ''LZ 129 Hindenburg'', passenger_capacity = 50,
      maximum_speed = 135, in_stock = 11\<rparr>"

definition two_products :: store where
  "two_products = create (create Map.empty the_odyssey) the_enigma"

definition one_product :: store where
  "one_product = create Map.empty hindenburg"

definition line :: "string \<Rightarrow> order_detail" where
  "line pid = \<lparr>product_id = pid, price = ''99.99'', quantity = 1\<rparr>"

section \<open>Decimal text round trip\<close>

lemma byte_digit_char: "d < 10 \<Longrightarrow> byte (digit_char d) = 48 + d"
  by (simp add: byte_def digit_char_def)



lemma not_space_digit_char: "d < 10 \<Longrightarrow> \<not> is_space (digit_char d)"
  by (simp add: is_space_def byte_digit_char)













section \<open>The store: writing a product and reading it back\<close>








section \<open>The batch get of the store\<close>

lemma pipeline_queue_append: "pipeline_queue pipeline keys = pipeline @ keys"
  by (induction keys arbitrary: pipeline) simp_all

lemma collect_products_sound:
  "collect_products acc results = Inr ps \<Longrightarrow>
   \<exists>qs. ps = acc @ qs \<and>
        list_all2 (\<lambda>r q. from_hash r = Inr q) (filter (\<lambda>r. r \<noteq> []) results) qs"
proof (induction results arbitrary: acc)
  case Nil
  then show ?case by simp
next
  case (Cons r rs)
  show ?case
  proof (cases "r = []")
    case True
    with Cons show ?thesis by simp
  next
    case False
    with Cons.prems obtain p where p: "from_hash r = Inr p"
      and rest: "collect_products (acc @ [p]) rs = Inr ps"
      by (auto split: sum.splits)
    from Cons.IH [OF rest] obtain qs where
      "ps = (acc @ [p]) @ qs"
      "list_all2 (\<lambda>r q. from_hash r = Inr q) (filter (\<lambda>r. r \<noteq> []) rs) qs"
      by blast
    with False p show ?thesis by simp
  qed
qed

lemma collect_products_complete:
  "list_all (\<lambda>r. r = [] \<or> (\<exists>p. from_hash r = Inr p)) results \<Longrightarrow>
   \<exists>ps. collect_products acc results = Inr ps"
proof (induction results arbitrary: acc)
  case Nil
  then show ?case by simp
next
  case (Cons r rs)
  then show ?case by (cases "r = []") auto
qed

lemma results_hits:
  "filter (\<lambda>r. r \<noteq> []) (map (hgetall s \<circ> format_key) ids) =
   map (\<lambda>i. hgetall s (format_key i)) (filter (has_record s) ids)"
  by (induction ids) (simp_all add: has_record_def)

lemma decodes_to_eq:
  "decodes_to s = (\<lambda>i p. from_hash (hgetall s (format_key i)) = Inr p)"
  by (intro ext) (simp add: decodes_to_def)

lemma record_ok_iff:
  "record_ok s i = (hgetall s (format_key i) = [] \<or> (\<exists>p. decodes_to s i p))"
  by (auto simp: record_ok_def decodes_to_def split: sum.splits)

lemma find_sound:
  assumes "find_order_details_by_id s ids = Inr ps"
  shows "ps \<noteq> [] \<and> list_all2 (decodes_to s) (filter (has_record s) ids) ps"
proof -
  from assms obtain qs where c: "collect_products [] (map (hgetall s) (map format_key ids)) = Inr qs"
    and q: "qs \<noteq> []" "ps = qs"
    by (auto simp: find_order_details_by_id_def pipeline_execute_def pipeline_queue_append
        Let_def split: sum.splits if_splits)
  from collect_products_sound [OF c]
  have "list_all2 (\<lambda>r q. from_hash r = Inr q)
          (map (\<lambda>i. hgetall s (format_key i)) (filter (has_record s) ids)) qs"
    by (simp add: results_hits)
  then have "list_all2 (decodes_to s) (filter (has_record s) ids) qs"
    by (simp add: list_all2_map1 decodes_to_eq)
  with q show ?thesis by simp
qed

lemma find_spec:
  assumes "list_all (record_ok s) ids"
  shows "\<exists>ps. list_all2 (decodes_to s) (filter (has_record s) ids) ps \<and>
           find_order_details_by_id s ids =
             (if ps = [] then Inl (NotFound ''No products found for the given IDs.'')
              else Inr ps)"
proof -
  let ?results = "map (hgetall s) (map format_key ids)"
  have "list_all (\<lambda>r. r = [] \<or> (\<exists>p. from_hash r = Inr p)) ?results"
    using assms by (simp add: list_all_iff record_ok_iff decodes_to_def)
  then obtain qs where c: "collect_products [] ?results = Inr qs"
    using collect_products_complete by blast
  from collect_products_sound [OF c]
  have "list_all2 (\<lambda>r q. from_hash r = Inr q)
          (map (\<lambda>i. hgetall s (format_key i)) (filter (has_record s) ids)) qs"
    by (simp add: results_hits)
  then have l: "list_all2 (decodes_to s) (filter (has_record s) ids) qs"
    by (simp add: list_all2_map1 decodes_to_eq)
  have "find_order_details_by_id s ids =
          (if qs = [] then Inl (NotFound ''No products found for the given IDs.'') else Inr qs)"
    using c by (simp add: find_order_details_by_id_def pipeline_execute_def pipeline_queue_append)
  with l show ?thesis by blast
qed















text \<open>
  C10. The batch get preserves order and multiplicity on hits: under the same
  assumption on the stored records, the returned list is, position by position, the
  decoded record of the request positions whose id has a record, in request order, an
  id requested twice being answered twice (and the call raises \<open>NotFound\<close> when no
  position has a record).
\<close>

theorem batch_get_order_multiplicity:
  assumes "list_all (record_ok s) ids"
  shows "\<exists>ps. list_all2 (decodes_to s) (filter (has_record s) ids) ps \<and>
           find_order_details_by_id s ids =
             (if filter (has_record s) ids = []
              then Inl (NotFound ''No products found for the given IDs.'')
              else Inr ps)"
proof -
  from find_spec [OF assms] obtain ps where
    l: "list_all2 (decodes_to s) (filter (has_record s) ids) ps" and
    f: "find_order_details_by_id s ids =
          (if ps = [] then Inl (NotFound ''No products found for the given IDs.'')
           else Inr ps)"
    by blast
  from l have "(ps = []) = (filter (has_record s) ids = [])"
    by (auto dest: list_all2_lengthD)
  with l f show ?thesis by auto
qed

theorem batch_get_order_multiplicity_witness:
  "list_all (record_ok two_products)
     [''the_enigma'', ''the_iliad'', ''the_odyssey'', ''the_enigma''] \<and>
   filter (has_record two_products)
     [''the_enigma'', ''the_iliad'', ''the_odyssey'', ''the_enigma''] =
     [''the_enigma'', ''the_odyssey'', ''the_enigma''] \<and>
   (\<exists>ps. list_all2 (decodes_to two_products)
           [''the_enigma'', ''the_odyssey'', ''the_enigma''] ps \<and>
         find_order_details_by_id two_products
           [''the_enigma'', ''the_iliad'', ''the_odyssey'', ''the_enigma''] = Inr ps)"
proof -
  have h: "list_all (record_ok two_products)
     [''the_enigma'', ''the_iliad'', ''the_odyssey'', ''the_enigma'']"
    by code_simp
  have k: "filter (has_record two_products)
     [''the_enigma'', ''the_iliad'', ''the_odyssey'', ''the_enigma''] =
     [''the_enigma'', ''the_odyssey'', ''the_enigma'']"
    by code_simp
  have e: "\<exists>ps. list_all2 (decodes_to two_products)
                 [''the_enigma'', ''the_odyssey'', ''the_enigma''] ps \<and>
               find_order_details_by_id two_products
                 [''the_enigma'', ''the_iliad'', ''the_odyssey'', ''the_enigma''] = Inr ps"
    using batch_get_order_multiplicity [OF h] unfolding k by simp
  from h k e show ?thesis
    by (intro conjI)
qed

section \<open>Order creation\<close>

lemma getitems_product_id:
  "ps \<noteq> [] \<Longrightarrow> getitems ps ''product_id'' = Inl (KeyError ''product_id'')"
  by (cases ps) (simp_all add: product_getitem_def product_items_def)

lemma get_products_by_id_Inr:
  "get_products_by_id s ids = Inr ps \<Longrightarrow> find_order_details_by_id s ids = Inr ps"
  by (auto simp: get_products_by_id_def split: sum.splits error.splits)

lemma missing_shortens:
  assumes "\<exists>d\<in>set order_data. \<not> has_record s (product_id d)"
  shows "length (filter (has_record s) (map product_id order_data)) <
         length (map product_id order_data)"
proof -
  from assms obtain i where "i \<in> set (map product_id order_data)" "\<not> has_record s i"
    by auto
  then show ?thesis
    by (rule length_filter_less)
qed

text \<open>
  A partial miss, some referenced id with a record and some without, always ends in
  \<open>KeyError\<close> on \<open>'product_id'\<close>.
\<close>

lemma partial_miss_key_error:
  assumes ok: "list_all (record_ok s) (map product_id order_data)"
    and miss: "\<exists>d\<in>set order_data. \<not> has_record s (product_id d)"
    and hit: "\<exists>d\<in>set order_data. has_record s (product_id d)"
  shows "priv_create_order s create_order_rpc order_data =
           (Inl (KeyError ''product_id''), [GetProductsById (map product_id order_data)])"
proof -
  let ?ids = "map product_id order_data"
  from hit have h: "filter (has_record s) ?ids \<noteq> []"
    by (auto simp: filter_empty_conv)
  from find_spec [OF ok] obtain ps where
    l: "list_all2 (decodes_to s) (filter (has_record s) ?ids) ps" and
    f: "find_order_details_by_id s ?ids =
          (if ps = [] then Inl (NotFound ''No products found for the given IDs.'')
           else Inr ps)"
    by blast
  from l h have ne: "ps \<noteq> []"
    by (auto dest: list_all2_lengthD)
  from l missing_shortens [OF miss] have "length ps \<noteq> length order_data"
    by (auto dest: list_all2_lengthD)
  with f ne show ?thesis
    by (simp add: priv_create_order_def get_products_by_id_def getitems_product_id)
qed

text \<open>
  C2. When some product referenced by the order has no record in the store, the
  workflow ends in an error and the only remote call it has issued is the batch get of
  the products: no \<open>create_order\<close> call reaches the orders service, whatever that
  service would have answered.
\<close>

theorem no_create_order_when_product_missing:
  assumes "\<exists>d\<in>set order_data. \<not> has_record s (product_id d)"
  shows "\<exists>e. priv_create_order s create_order_rpc order_data =
              (Inl e, [GetProductsById (map product_id order_data)])"
proof (cases "get_products_by_id s (map product_id order_data)")
  case (Inl e)
  then show ?thesis
    by (simp add: priv_create_order_def)
next
  case (Inr ps)
  from find_sound [OF get_products_by_id_Inr [OF Inr]]
  have ne: "ps \<noteq> []"
    and len: "length ps = length (filter (has_record s) (map product_id order_data))"
    by (auto dest: list_all2_lengthD)
  from len missing_shortens [OF assms]
  have "length ps \<noteq> length order_data"
    by simp
  with Inr ne show ?thesis
    by (simp add: priv_create_order_def getitems_product_id)
qed

theorem no_create_order_when_product_missing_witness:
  "(\<exists>d\<in>set [line ''the_odyssey'', line ''the_iliad'', line ''the_enigma''].
      \<not> has_record two_products (product_id d)) \<and>
   (\<exists>e. priv_create_order two_products accepting_orders
           [line ''the_odyssey'', line ''the_iliad'', line ''the_enigma''] =
         (Inl e, [GetProductsById [''the_odyssey'', ''the_iliad'', ''the_enigma'']]))"
proof -
  have h: "\<exists>d\<in>set [line ''the_odyssey'', line ''the_iliad'', line ''the_enigma''].
      \<not> has_record two_products (product_id d)"
    by code_simp
  have m: "map product_id [line ''the_odyssey'', line ''the_iliad'', line ''the_enigma''] =
      [''the_odyssey'', ''the_iliad'', ''the_enigma'']"
    by (simp add: line_def)
  have e: "\<exists>e. priv_create_order two_products accepting_orders
           [line ''the_odyssey'', line ''the_iliad'', line ''the_enigma''] =
         (Inl e, [GetProductsById [''the_odyssey'', ''the_iliad'', ''the_enigma'']])"
    using no_create_order_when_product_missing [OF h, of accepting_orders] unfolding m .
  from h e show ?thesis
    by (intro conjI)
qed

text \<open>
  C1. An order referencing the two stored products and, between them, an id with no
  record: the batch get answers two products for three ids, the workflow then reads
  \<open>item['product_id']\<close> from the products found, which carry their id under \<open>'id'\<close>, and
  ends in \<open>KeyError\<close> on \<open>'product_id'\<close>; \<open>ProductNotFound\<close> naming the missing id is not
  raised.
\<close>

theorem create_order_partial_miss_key_error:
  "priv_create_order two_products create_order_rpc
     [line ''the_odyssey'', line ''the_iliad'', line ''the_enigma''] =
   (Inl (KeyError ''product_id''),
    [GetProductsById [''the_odyssey'', ''the_iliad'', ''the_enigma'']])"
  by code_simp

text \<open>
  C3. An order with two lines for the same stored product: the batch get is sent the id
  twice, once per line, and the order is created; the ids are not reduced to the
  distinct ones before the call.
\<close>

theorem create_order_queries_duplicates:
  "priv_create_order two_products accepting_orders
     [line ''the_odyssey'', line ''the_odyssey''] =
   (Inr 1,
    [GetProductsById [''the_odyssey'', ''the_odyssey''],
     CreateOrder [line ''the_odyssey'', line ''the_odyssey'']])"
  by code_simp

section \<open>Order retrieval\<close>

lemma product_getitem_id: "product_getitem p ''id'' = Inr (PStr (id_p p))"
  by (simp add: product_getitem_def product_items_def)

lemma build_product_map_dom:
  "\<exists>m'. build_product_map m ps = Inr m' \<and> dom m' = dom m \<union> (\<lambda>p. PStr (id_p p)) ` set ps"
proof (induction ps arbitrary: m)
  case Nil
  show ?case by simp
next
  case (Cons p ps)
  from Cons [of "m(PStr (id_p p) \<mapsto> p)"]
  obtain m' where b: "build_product_map (m(PStr (id_p p) \<mapsto> p)) ps = Inr m'"
    and d: "dom m' = dom (m(PStr (id_p p) \<mapsto> p)) \<union> (\<lambda>p. PStr (id_p p)) ` set ps"
    by blast
  from d have "dom m' = dom m \<union> (\<lambda>p. PStr (id_p p)) ` set (p # ps)"
    by simp
  with b show ?case
    by (simp add: product_getitem_id)
qed

lemma build_product_map_lookup:
  assumes "\<forall>p\<in>set ps. p = product_of (id_p p)"
  shows "\<exists>m'. build_product_map m ps = Inr m' \<and>
           (\<forall>i. m' (PStr i) = (if i \<in> id_p ` set ps then Some (product_of i) else m (PStr i)))"
  using assms
proof (induction ps arbitrary: m)
  case Nil
  show ?case by simp
next
  case (Cons p ps)
  then have p: "p = product_of (id_p p)" and rest: "\<forall>q\<in>set ps. q = product_of (id_p q)"
    by simp_all
  from Cons.IH [OF rest, of "m(PStr (id_p p) \<mapsto> p)"]
  obtain m' where b: "build_product_map (m(PStr (id_p p) \<mapsto> p)) ps = Inr m'"
    and l: "\<forall>i. m' (PStr i) =
              (if i \<in> id_p ` set ps then Some (product_of i)
               else (m(PStr (id_p p) \<mapsto> p)) (PStr i))"
    by blast
  have "\<forall>i. m' (PStr i) =
          (if i \<in> id_p ` set (p # ps) then Some (product_of i) else m (PStr i))"
    using l p by auto
  with b show ?case
    by (simp add: product_getitem_id)
qed

lemma enhance_total:
  "\<forall>d\<in>set ds. PStr (product_id d) \<in> dom m \<Longrightarrow> \<exists>r. enhance image_root m ds = Inr r"
  by (induction ds) auto

lemma enhance_value:
  "\<forall>d\<in>set ds. m (PStr (product_id d)) = Some (product_of (product_id d)) \<Longrightarrow>
   enhance image_root m ds =
     Inr (map (\<lambda>d. \<lparr>product_id = product_id d, price = price d, quantity = quantity d,
                     item_product = product_of (product_id d),
                     item_image = image_root @ ''/'' @ product_id d @ ''.jpg''\<rparr>) ds)"
  by (induction ds) simp_all

lemma stored_record:
  "stored s i p \<Longrightarrow> has_record s i \<and> decodes_to s i p \<and> id_p p = i"
  by (auto simp: stored_def get_def has_record_def decodes_to_def Let_def split: if_splits)

lemma batch_get_all_stored:
  assumes "ids \<noteq> []" and "\<forall>i\<in>set ids. stored s i (product_of i)"
  shows "get_products_by_id s ids = Inr (map product_of ids)"
proof -
  have ok: "list_all (record_ok s) ids"
    using assms(2) by (auto simp: list_all_iff record_ok_iff dest: stored_record)
  have all: "filter (has_record s) ids = ids"
    using assms(2) by (auto simp: filter_id_conv dest: stored_record)
  from find_spec [OF ok] obtain ps where
    l: "list_all2 (decodes_to s) ids ps" and
    f: "find_order_details_by_id s ids =
          (if ps = [] then Inl (NotFound ''No products found for the given IDs.'')
           else Inr ps)"
    unfolding all by blast
  have "ps = map product_of ids"
  proof (rule nth_equalityI)
    show "length ps = length (map product_of ids)"
      using l by (simp add: list_all2_lengthD)
  next
    fix n assume n: "n < length ps"
    then have "decodes_to s (ids ! n) (ps ! n)"
      using l by (simp add: list_all2_conv_all_nth)
    moreover have "decodes_to s (ids ! n) (product_of (ids ! n))"
      using assms(2) n l by (auto dest!: stored_record simp: list_all2_lengthD)
    ultimately show "ps ! n = map product_of ids ! n"
      using n l by (simp add: decodes_to_def list_all2_lengthD)
  qed
  with f assms(1) show ?thesis
    by (simp add: get_products_by_id_def)
qed

text \<open>
  C8. For an order the orders service holds, with at least one detail, all of whose
  referenced products exist in the store, retrieval returns the order with every detail
  carrying its product and the image \<open>image_root/product_id.jpg\<close>, after one
  \<open>get_order\<close> call and one batch get of the referenced ids.
\<close>

theorem get_order_enriched:
  assumes "get_order_rpc oid = Inr order"
    and "order_details order \<noteq> []"
    and "\<forall>d\<in>set (order_details order). stored s (product_id d) (product_of (product_id d))"
  shows "priv_get_order s get_order_rpc image_root oid =
           (Inr \<lparr>order_id = order_id order,
                 order_details =
                   map (\<lambda>d. \<lparr>product_id = product_id d, price = price d,
                              quantity = quantity d,
                              item_product = product_of (product_id d),
                              item_image = image_root @ ''/'' @ product_id d @ ''.jpg''\<rparr>)
                     (order_details order)\<rparr>,
            [GetOrder oid, GetProductsById (map product_id (order_details order))])"
proof -
  let ?ids = "map product_id (order_details order)"
  have st: "\<forall>i\<in>set ?ids. stored s i (product_of i)"
    using assms(3) by simp
  have g: "get_products_by_id s ?ids = Inr (map product_of ?ids)"
    using assms(2) st by (intro batch_get_all_stored) simp_all
  have "\<forall>p\<in>set (map product_of ?ids). p = product_of (id_p p)"
    using st by (auto dest!: stored_record)
  from build_product_map_lookup [OF this, of Map.empty]
  obtain m' where b: "build_product_map Map.empty (map product_of ?ids) = Inr m'"
    and l: "\<forall>i. m' (PStr i) =
              (if i \<in> id_p ` set (map product_of ?ids) then Some (product_of i) else None)"
    by auto
  have "\<forall>d\<in>set (order_details order). m' (PStr (product_id d)) = Some (product_of (product_id d))"
  proof
    fix d assume d: "d \<in> set (order_details order)"
    then have "id_p (product_of (product_id d)) = product_id d"
      using assms(3) by (auto dest!: stored_record)
    then have "product_id d \<in> id_p ` set (map product_of ?ids)"
      using d by force
    with l show "m' (PStr (product_id d)) = Some (product_of (product_id d))"
      by simp
  qed
  from enhance_value [OF this, of image_root] assms(1) g b show ?thesis
    by (simp add: priv_get_order_def)
qed

theorem get_order_enriched_witness:
  "orders_holding \<lparr>order_id = 1234,
       order_details = [line ''the_enigma'', line ''the_odyssey'', line ''the_enigma'']\<rparr> 1234 =
     Inr \<lparr>order_id = 1234,
          order_details = [line ''the_enigma'', line ''the_odyssey'', line ''the_enigma'']\<rparr> \<and>
   stored two_products ''the_odyssey'' the_odyssey \<and>
   stored two_products ''the_enigma'' the_enigma \<and>
   priv_get_order two_products
     (orders_holding \<lparr>order_id = 1234,
        order_details = [line ''the_enigma'', line ''the_odyssey'', line ''the_enigma'']\<rparr>)
     ''http://img'' 1234 =
     (Inr \<lparr>order_id = 1234,
            order_details =
              [\<lparr>product_id = ''the_enigma'', price = ''99.99'', quantity = 1,
                item_product = the_enigma, item_image = ''http://img/the_enigma.jpg''\<rparr>,
               \<lparr>product_id = ''the_odyssey'', price = ''99.99'', quantity = 1,
                item_product = the_odyssey, item_image = ''http://img/the_odyssey.jpg''\<rparr>,
               \<lparr>product_id = ''the_enigma'', price = ''99.99'', quantity = 1,
                item_product = the_enigma, item_image = ''http://img/the_enigma.jpg''\<rparr>]\<rparr>,
      [GetOrder 1234, GetProductsById [''the_enigma'', ''the_odyssey'', ''the_enigma'']])"
proof -
  let ?order = "\<lparr>order_id = 1234,
       order_details = [line ''the_enigma'', line ''the_odyssey'', line ''the_enigma'']\<rparr>"
  let ?product_of = "\<lambda>i. if i = ''the_odyssey'' then the_odyssey else the_enigma"
  have o: "orders_holding ?order 1234 = Inr ?order"
    by (simp add: orders_holding_def)
  have n: "order_details ?order \<noteq> []"
    by simp
  have s1: "stored two_products ''the_odyssey'' the_odyssey"
    by code_simp
  have s2: "stored two_products ''the_enigma'' the_enigma"
    by code_simp
  have a: "\<forall>d\<in>set (order_details ?order).
             stored two_products (product_id d) (?product_of (product_id d))"
    using s1 s2 by (simp add: line_def)
  from get_order_enriched [of "orders_holding ?order" 1234 ?order two_products ?product_of
      "''http://img''", OF o n a]
  have "priv_get_order two_products (orders_holding ?order) ''http://img'' 1234 =
     (Inr \<lparr>order_id = 1234,
            order_details =
              [\<lparr>product_id = ''the_enigma'', price = ''99.99'', quantity = 1,
                item_product = the_enigma, item_image = ''http://img/the_enigma.jpg''\<rparr>,
               \<lparr>product_id = ''the_odyssey'', price = ''99.99'', quantity = 1,
                item_product = the_odyssey, item_image = ''http://img/the_odyssey.jpg''\<rparr>,
               \<lparr>product_id = ''the_enigma'', price = ''99.99'', quantity = 1,
                item_product = the_enigma, item_image = ''http://img/the_enigma.jpg''\<rparr>]\<rparr>,
      [GetOrder 1234, GetProductsById [''the_enigma'', ''the_odyssey'', ''the_enigma'']])"
    by (simp add: line_def)
  with o s1 s2 show ?thesis
    by (intro conjI)
qed

text \<open>
  An order the orders service holds with no detail at all references no missing product,
  and yet its retrieval fails: the batch get of no ids raises \<open>NotFound\<close>.
\<close>

theorem get_order_empty_order_counterexample:
  "orders_holding \<lparr>order_id = 1234, order_details = []\<rparr> 1234 =
     Inr \<lparr>order_id = 1234, order_details = []\<rparr> \<and>
   priv_get_order two_products (orders_holding \<lparr>order_id = 1234, order_details = []\<rparr>)
     ''http://img'' 1234 =
     (Inl (ProductNotFound ''No products found for the given IDs.''),
      [GetOrder 1234, GetProductsById []])"
  by code_simp

text \<open>
  C9. The lookup \<open>product_map[product_id]\<close> of the enhancing loop is partial. When every
  product id the fetched order references is the id of a product in the batch-get
  answer, retrieval returns an enriched order. For the order referencing a stored
  product and an id with no record, the batch get answers the one product and the loop
  raises \<open>KeyError\<close> on the other id, neither \<open>OrderNotFound\<close> nor \<open>ProductNotFound\<close>.
\<close>

theorem enrichment_lookup_partial:
  "(get_order_rpc oid = Inr order \<and>
    get_products_by_id s (map product_id (order_details order)) = Inr products_data \<and>
    product_id ` set (order_details order) \<subseteq> id_p ` set products_data \<longrightarrow>
    (\<exists>r. fst (priv_get_order s get_order_rpc image_root oid) = Inr r)) \<and>
   get_products_by_id two_products [''the_odyssey'', ''the_iliad''] = Inr [the_odyssey] \<and>
   fst (priv_get_order two_products
          (orders_holding \<lparr>order_id = 1234,
             order_details = [line ''the_odyssey'', line ''the_iliad'']\<rparr>)
          ''http://img'' 1234) = Inl (KeyError ''the_iliad'')"
proof (intro conjI impI)
  assume a: "get_order_rpc oid = Inr order \<and>
    get_products_by_id s (map product_id (order_details order)) = Inr products_data \<and>
    product_id ` set (order_details order) \<subseteq> id_p ` set products_data"
  from build_product_map_dom [of Map.empty products_data]
  obtain m' where b: "build_product_map Map.empty products_data = Inr m'"
    and d: "dom m' = (\<lambda>p. PStr (id_p p)) ` set products_data"
    by auto
  have "\<forall>d\<in>set (order_details order). PStr (product_id d) \<in> dom m'"
    using a d by auto
  from enhance_total [OF this, of image_root]
  obtain r where "enhance image_root m' (order_details order) = Inr r"
    by blast
  with a b show "\<exists>r. fst (priv_get_order s get_order_rpc image_root oid) = Inr r"
    by (simp add: priv_get_order_def)
next
  show "get_products_by_id two_products [''the_odyssey'', ''the_iliad''] = Inr [the_odyssey]"
    by code_simp
next
  show "fst (priv_get_order two_products
          (orders_holding \<lparr>order_id = 1234,
             order_details = [line ''the_odyssey'', line ''the_iliad'']\<rparr>)
          ''http://img'' 1234) = Inl (KeyError ''the_iliad'')"
    by code_simp
qed

theorem enrichment_lookup_partial_witness:
  "orders_holding \<lparr>order_id = 1234,
       order_details = [line ''the_odyssey'', line ''the_enigma'']\<rparr> 1234 =
     Inr \<lparr>order_id = 1234, order_details = [line ''the_odyssey'', line ''the_enigma'']\<rparr> \<and>
   get_products_by_id two_products [''the_odyssey'', ''the_enigma''] =
     Inr [the_odyssey, the_enigma] \<and>
   {''the_odyssey'', ''the_enigma''} \<subseteq> id_p ` set [the_odyssey, the_enigma] \<and>
   (\<exists>r. fst (priv_get_order two_products
               (orders_holding \<lparr>order_id = 1234,
                  order_details = [line ''the_odyssey'', line ''the_enigma'']\<rparr>)
               ''http://img'' 1234) = Inr r)"
proof -
  let ?order = "\<lparr>order_id = 1234, order_details = [line ''the_odyssey'', line ''the_enigma'']\<rparr>"
  have o: "orders_holding ?order 1234 = Inr ?order"
    by (simp add: orders_holding_def)
  have g: "get_products_by_id two_products [''the_odyssey'', ''the_enigma''] =
     Inr [the_odyssey, the_enigma]"
    by code_simp
  have i: "{''the_odyssey'', ''the_enigma''} \<subseteq> id_p ` set [the_odyssey, the_enigma]"
    by (simp add: the_odyssey_def the_enigma_def)
  have "\<exists>r. fst (priv_get_order two_products (orders_holding ?order) ''http://img'' 1234) = Inr r"
    using enrichment_lookup_partial [of "orders_holding ?order" 1234 ?order two_products
        "[the_odyssey, the_enigma]" "''http://img''"] o g i
    by (simp add: line_def)
  with o g i show ?thesis
    by (intro conjI)
qed

section \<open>Stock decrement\<close>

text \<open>On an id with no record the decrement answers the negated amount and creates a record.\<close>

lemma decrement_stock_no_record:
  assumes "hgetall s (format_key i) = []" and "in_int64 (- amount)"
  shows "fst (decrement_stock s i amount) = Inr (- amount) \<and>
         hgetall (snd (decrement_stock s i amount)) (format_key i) =
           [(''in_stock'', py_repr_int (- amount))]"
  using assms by (simp add: decrement_stock_def hincrby_def hgetall_def)

text \<open>
  C5. Decrementing by 4 twice a product with 11 in stock answers 7 and then 3.
  Decrementing an id with no record does not raise \<open>NotFound\<close>: it answers \<open>-4\<close> and
  leaves a record holding only the field \<open>in_stock\<close>.
\<close>

theorem decrement_stock_missing_creates:
  "fst (decrement_stock one_product ''LZ129'' 4) = Inr 7 \<and>
   fst (decrement_stock (snd (decrement_stock one_product ''LZ129'' 4)) ''LZ129'' 4) = Inr 3 \<and>
   has_record one_product ''LZ130'' = False \<and>
   fst (decrement_stock one_product ''LZ130'' 4) = Inr (- 4) \<and>
   hgetall (snd (decrement_stock one_product ''LZ130'' 4)) (format_key ''LZ130'') =
     [(''in_stock'', ''-4'')]"
  by code_simp

section \<open>Listing orders\<close>

text \<open>
  Without query parameters the defaults are passed on; a given \<open>page\<close> or \<open>limit\<close> is
  text and fails the comparison.
\<close>

lemma get_orders_defaults:
  "get_orders list_orders_rpc [] =
     (list_orders_rpc (PInt 1) (PInt 10), [ListOrders (PInt 1) (PInt 10)])"
  by (simp add: get_orders_def args_get_def py_max_def py_min_def)

lemma get_orders_page_given:
  "map_of args ''page'' = Some v \<Longrightarrow> get_orders list_orders_rpc args = (Inl TypeError, [])"
  by (simp add: get_orders_def args_get_def py_max_def)

lemma get_orders_limit_given:
  "map_of args ''limit'' = Some v \<Longrightarrow> get_orders list_orders_rpc args = (Inl TypeError, [])"
  by (cases "map_of args ''page''") (simp_all add: get_orders_def args_get_def py_max_def py_min_def)

text \<open>
  C6. For the query \<open>page=0&limit=50\<close> the parameter \<open>page\<close> reaches \<open>max\<close> as the text
  \<open>'0'\<close>; comparing it with the integer 1 raises \<open>TypeError\<close>, and \<open>list_orders\<close> is not
  called.
\<close>

theorem get_orders_query_text_type_error:
  "get_orders list_orders_rpc [(''page'', ''0''), (''limit'', ''50'')] = (Inl TypeError, [])"
  by code_simp

end
